theory Spec2Isabelle
  imports Complex_Main "HOL-Library.Multiset"
begin

section \<open>Flight booking backend: data model\<close>

text \<open>
  The documents of \<^verbatim>\<open>schemas.py\<close> and the request and response models of
  \<^verbatim>\<open>main.py\<close> are records with the fields of the source. A MongoDB ObjectId is a
  natural number; a datetime is a count of microseconds on one time axis; a Python float
  (price, total amount) is a rational number, so the product
  \<^verbatim>\<open>float(price) * len(passengers)\<close> is the exact product, without rounding.
\<close>

type_synonym oid = nat
type_synonym datetime = int

record Airport =
  code :: string
  name :: string
  city :: string
  country :: string

record Flight =
  flight_number :: string
  origin :: string
  destination :: string
  departure_time :: datetime
  arrival_time :: datetime
  price :: rat
  seats_total :: int
  seats_available :: int

record Passenger =
  first_name :: string
  last_name :: string
  email :: string
  document_number :: "string option"

record Booking =
  flight_id :: string
  contact_email :: string
  passengers :: "Passenger list"
  total_amount :: rat
  status :: string

record SearchQuery =
  origin :: string
  destination :: string
  date :: datetime

record PassengerIn =
  first_name :: string
  last_name :: string
  email :: string
  document_number :: "string option"

record BookingRequest =
  flight_id :: string
  contact_email :: string
  passengers :: "PassengerIn list"

record BookingResponse =
  booking_id :: string
  status :: string

text \<open>
  What the service takes from its libraries: the parser of \<^verbatim>\<open>bson.ObjectId\<close> (None
  where it raises), the rendering \<^verbatim>\<open>str\<close> of an ObjectId, and the validator behind
  pydantic's \<^verbatim>\<open>EmailStr\<close>. Every operation below takes them as the parameter \<open>L\<close>.
\<close>

record lib =
  ObjectId :: "string \<Rightarrow> oid option"
  str :: "oid \<Rightarrow> string"
  EmailStr :: "string \<Rightarrow> bool"

text \<open>
  The database: one list of (id, document) pairs per collection, in insertion order, and
  the counter from which the driver draws the id of the next inserted document.
\<close>

record database =
  airport :: "(oid \<times> Airport) list"
  flight :: "(oid \<times> Flight) list"
  booking :: "(oid \<times> Booking) list"
  next_oid :: oid

datatype exn =
    HTTPException (status_code: nat) (detail: string)
  | ValidationError
  | RequestValidationError

section \<open>Collection operations\<close>

text \<open>\<^verbatim>\<open>find_one({"_id": i})\<close>: the first document with that id.\<close>

definition find_one :: "oid \<Rightarrow> (oid \<times> 'a) list \<Rightarrow> 'a option" where
  "find_one i c = map_of c i"

text \<open>
  \<^verbatim>\<open>update_one({"_id": i}, {"$inc": {"seats_available": d}})\<close>: adds \<open>d\<close> to the
  counter of the first document with that id. The filter names the id only.
\<close>

fun update_one_inc :: "oid \<Rightarrow> int \<Rightarrow> (oid \<times> Flight) list \<Rightarrow> (oid \<times> Flight) list" where
  "update_one_inc i d [] = []"
| "update_one_inc i d ((j, f) # c) =
     (if j = i then (j, f\<lparr>seats_available := seats_available f + d\<rparr>) # c
      else (j, f) # update_one_inc i d c)"

text \<open>
  Modelled from the spec: \<^verbatim>\<open>create_document\<close> of the module \<^verbatim>\<open>database\<close>, which is
  not among the sources. It persists the record as a new document of the collection and
  returns the new document's id as a string.
\<close>

definition create_document_booking :: "lib \<Rightarrow> Booking \<Rightarrow> database \<Rightarrow> string \<times> database" where
  "create_document_booking L b db =
     (str L (next_oid db),
      db\<lparr>booking := booking db @ [(next_oid db, b)], next_oid := Suc (next_oid db)\<rparr>)"

section \<open>Creating a booking\<close>

text \<open>The constructors of the pydantic models, with the field constraints they check.\<close>

definition mk_Passenger :: "lib \<Rightarrow> PassengerIn \<Rightarrow> exn + Passenger" where
  "mk_Passenger L p =
     (if EmailStr L (PassengerIn.email p)
      then Inr \<lparr>Passenger.first_name = PassengerIn.first_name p,
                Passenger.last_name = PassengerIn.last_name p,
                Passenger.email = PassengerIn.email p,
                Passenger.document_number = PassengerIn.document_number p\<rparr>
      else Inl ValidationError)"

fun mk_Passengers :: "lib \<Rightarrow> PassengerIn list \<Rightarrow> exn + Passenger list" where
  "mk_Passengers L [] = Inr []"
| "mk_Passengers L (p # ps) =
     (case mk_Passenger L p of
        Inl e \<Rightarrow> Inl e
      | Inr q \<Rightarrow> (case mk_Passengers L ps of Inl e \<Rightarrow> Inl e | Inr qs \<Rightarrow> Inr (q # qs)))"

definition mk_Booking :: "lib \<Rightarrow> string \<Rightarrow> string \<Rightarrow> Passenger list \<Rightarrow> rat \<Rightarrow> string \<Rightarrow> exn + Booking" where
  "mk_Booking L fid_str mail ps amount st =
     (if EmailStr L mail \<and> list_all (\<lambda>p. EmailStr L (Passenger.email p)) ps \<and> 0 \<le> amount
      then Inr \<lparr>Booking.flight_id = fid_str, Booking.contact_email = mail,
                Booking.passengers = ps, total_amount = amount, Booking.status = st\<rparr>
      else Inl ValidationError)"

text \<open>
  \<^verbatim>\<open>create_booking\<close> calls the store three times: \<^verbatim>\<open>find_one\<close> on the flight
  (line 179), \<^verbatim>\<open>create_document\<close> for the booking (line 203) and \<^verbatim>\<open>update_one\<close>
  on the flight (line 206). The body is cut at these calls into three parts; each part is
  one store call with the local computation around it.
\<close>

text \<open>Lines 175 to 183: parse the id, read the flight, compare the seats.\<close>

definition cb_read :: "lib \<Rightarrow> BookingRequest \<Rightarrow> database \<Rightarrow> exn + (oid \<times> Flight)" where
  "cb_read L req db =
     (case ObjectId L (BookingRequest.flight_id req) of
        None \<Rightarrow> Inl (HTTPException 400 ''Invalid flight id'')
      | Some fid \<Rightarrow>
          (case find_one fid (flight db) of
             None \<Rightarrow> Inl (HTTPException 404 ''Flight not found'')
           | Some fl \<Rightarrow>
               if seats_available fl < int (length (BookingRequest.passengers req))
               then Inl (HTTPException 400 ''Not enough seats available'')
               else Inr (fid, fl)))"

text \<open>Lines 186 to 203: build the booking document from the flight read and persist it.\<close>

definition cb_insert ::
  "lib \<Rightarrow> BookingRequest \<Rightarrow> Flight \<Rightarrow> database \<Rightarrow> exn + ((Passenger list \<times> string) \<times> database)" where
  "cb_insert L req fl db =
     (case mk_Passengers L (BookingRequest.passengers req) of
        Inl e \<Rightarrow> Inl e
      | Inr ps \<Rightarrow>
          (case mk_Booking L (BookingRequest.flight_id req) (BookingRequest.contact_email req) ps
                  (price fl * of_nat (length ps)) ''confirmed'' of
             Inl e \<Rightarrow> Inl e
           | Inr b \<Rightarrow>
               (case create_document_booking L b db of (bid, db') \<Rightarrow> Inr ((ps, bid), db'))))"

text \<open>Lines 206 to 208: decrease the seats and answer.\<close>

definition cb_decrement :: "oid \<Rightarrow> Passenger list \<Rightarrow> string \<Rightarrow> database \<Rightarrow> BookingResponse \<times> database" where
  "cb_decrement fid ps bid db =
     (\<lparr>booking_id = bid, BookingResponse.status = ''confirmed''\<rparr>,
      db\<lparr>flight := update_one_inc fid (- int (length ps)) (flight db)\<rparr>)"

text \<open>
  The whole body, run without interruption. The result is the response or the exception
  raised, together with the database as the call leaves it.
\<close>

definition create_booking :: "lib \<Rightarrow> BookingRequest \<Rightarrow> database \<Rightarrow> (exn + BookingResponse) \<times> database" where
  "create_booking L req db =
     (case cb_read L req db of
        Inl e \<Rightarrow> (Inl e, db)
      | Inr (fid, fl) \<Rightarrow>
          (case cb_insert L req fl db of
             Inl e \<Rightarrow> (Inl e, db)
           | Inr ((ps, bid), db1) \<Rightarrow>
               (case cb_decrement fid ps bid db1 of (resp, db2) \<Rightarrow> (Inr resp, db2))))"

text \<open>
  The route \<^verbatim>\<open>POST /api/bookings\<close>: the framework validates the body against
  \<^verbatim>\<open>BookingRequest\<close> (the e-mail fields; \<^verbatim>\<open>passengers\<close> is a plain list with no
  length constraint) and then calls the function.
\<close>

definition BookingRequest_valid :: "lib \<Rightarrow> BookingRequest \<Rightarrow> bool" where
  "BookingRequest_valid L req \<longleftrightarrow>
     EmailStr L (BookingRequest.contact_email req) \<and>
     list_all (\<lambda>p. EmailStr L (PassengerIn.email p)) (BookingRequest.passengers req)"


section \<open>Concurrent calls\<close>

text \<open>
  Requests are served in parallel, and the store serialises single calls only. A call in
  progress is at one of four points: not started, after the read of the flight (holding
  the id and the flight document it read), after the booking was written (holding the id,
  the passenger documents and the booking id), or finished with its result.
\<close>

datatype pc =
    Start BookingRequest
  | Checked BookingRequest oid Flight
  | Written oid "Passenger list" string
  | Done "exn + BookingResponse"

fun step :: "lib \<Rightarrow> pc \<Rightarrow> database \<Rightarrow> pc \<times> database" where
  "step L (Start req) db =
     (case cb_read L req db of
        Inl e \<Rightarrow> (Done (Inl e), db)
      | Inr (fid, fl) \<Rightarrow> (Checked req fid fl, db))"
| "step L (Checked req fid fl) db =
     (case cb_insert L req fl db of
        Inl e \<Rightarrow> (Done (Inl e), db)
      | Inr ((ps, bid), db') \<Rightarrow> (Written fid ps bid, db'))"
| "step L (Written fid ps bid) db =
     (case cb_decrement fid ps bid db of (resp, db') \<Rightarrow> (Done (Inr resp), db'))"
| "step L (Done r) db = (Done r, db)"

text \<open>
  A schedule is the list of the calls' indices in the order in which they take their next
  step; an index with no call is skipped.
\<close>

fun run :: "lib \<Rightarrow> nat list \<Rightarrow> pc list \<times> database \<Rightarrow> pc list \<times> database" where
  "run L [] s = s"
| "run L (i # sched) (pcs, db) =
     (if i < length pcs
      then (case step L (pcs ! i) db of (p, db') \<Rightarrow> run L sched (pcs[i := p], db'))
      else run L sched (pcs, db))"

section \<open>Seat accounting\<close>

text \<open>
  The seats taken from a flight by the bookings that are not cancelled and whose
  \<open>flight_id\<close> parses to the flight's id (as \<^verbatim>\<open>list_bookings\<close> resolves it), and the
  seats of the calls that have written their booking but not yet decreased the counter.
\<close>

definition refers :: "lib \<Rightarrow> oid \<Rightarrow> Booking \<Rightarrow> bool" where
  "refers L fid b \<longleftrightarrow> Booking.status b \<noteq> ''cancelled'' \<and> ObjectId L (Booking.flight_id b) = Some fid"

definition booked :: "lib \<Rightarrow> oid \<Rightarrow> database \<Rightarrow> int" where
  "booked L fid db =
     (\<Sum>b \<leftarrow> filter (refers L fid) (map snd (booking db)). int (length (Booking.passengers b)))"

fun owed :: "oid \<Rightarrow> pc \<Rightarrow> int" where
  "owed fid (Written i ps bid) = (if i = fid then int (length ps) else 0)"
| "owed fid p = 0"

definition pending :: "oid \<Rightarrow> pc list \<Rightarrow> int" where
  "pending fid pcs = (\<Sum>p \<leftarrow> pcs. owed fid p)"

section \<open>Documents written by a call\<close>

text \<open>
  The passenger document built from a request's passenger (lines 187 to 192) and the booking
  document built for a request from the flight that was read (lines 195 to 202).
\<close>

definition as_Passenger :: "PassengerIn \<Rightarrow> Passenger" where
  "as_Passenger p =
     \<lparr>Passenger.first_name = PassengerIn.first_name p, Passenger.last_name = PassengerIn.last_name p,
      Passenger.email = PassengerIn.email p, Passenger.document_number = PassengerIn.document_number p\<rparr>"

definition booking_doc :: "BookingRequest \<Rightarrow> Flight \<Rightarrow> Booking" where
  "booking_doc req fl =
     \<lparr>Booking.flight_id = BookingRequest.flight_id req,
      Booking.contact_email = BookingRequest.contact_email req,
      Booking.passengers = map as_Passenger (BookingRequest.passengers req),
      total_amount = price fl * of_nat (length (BookingRequest.passengers req)),
      Booking.status = ''confirmed''\<rparr>"

section \<open>Invariants of calls in progress\<close>

text \<open>
  A call that has read its flight holds the id its request parses to. The account of a
  flight is its counter plus the seats of its bookings minus the seats of the calls that
  have written a booking and not yet decreased the counter.
\<close>

fun pc_ok :: "lib \<Rightarrow> pc \<Rightarrow> bool" where
  "pc_ok L (Checked req fid fl) = (ObjectId L (BookingRequest.flight_id req) = Some fid)"
| "pc_ok L p = True"

definition account :: "lib \<Rightarrow> oid \<Rightarrow> pc list \<times> database \<Rightarrow> int option" where
  "account L fid s =
     map_option (\<lambda>f. seats_available f + booked L fid (snd s) - pending fid (fst s))
       (find_one fid (flight (snd s)))"

section \<open>Seed data\<close>

definition AIRPORTS_SAMPLE :: "Airport list" where
  "AIRPORTS_SAMPLE =
     [\<lparr>code = ''IKA'', name = ''Imam Khomeini International'', city = ''Tehran'', country = ''Iran''\<rparr>,
      \<lparr>code = ''MHD'', name = ''Mashhad International'', city = ''Mashhad'', country = ''Iran''\<rparr>,
      \<lparr>code = ''SYZ'', name = ''Shiraz International'', city = ''Shiraz'', country = ''Iran''\<rparr>,
      \<lparr>code = ''IFN'', name = ''Isfahan International'', city = ''Isfahan'', country = ''Iran''\<rparr>,
      \<lparr>code = ''THR'', name = ''Mehrabad'', city = ''Tehran'', country = ''Iran''\<rparr>]"

definition AIRLINES :: "string list" where
  "AIRLINES = [''IR'', ''W5'', ''QB'', ''EP'']"

definition routes :: "(string \<times> string) list" where
  "routes = [(''IKA'', ''MHD''), (''IKA'', ''SYZ''), (''THR'', ''MHD''), (''IFN'', ''IKA'')]"

fun price_base :: "string \<times> string \<Rightarrow> int" where
  "price_base (o1, dst) =
     (if (o1, dst) = (''IKA'', ''MHD'') then 70
      else if (o1, dst) = (''IKA'', ''SYZ'') then 65
      else if (o1, dst) = (''THR'', ''MHD'') then 60
      else 55)"

definition usec_hour :: int where
  "usec_hour = 3600000000"

definition usec_day :: int where
  "usec_day = 24 * usec_hour"

text \<open>Decimal digits of a number, for the f-string of the flight number.\<close>

definition digit :: "nat \<Rightarrow> char" where
  "digit k = ''0123456789'' ! (k mod 10)"

definition str_nat :: "nat \<Rightarrow> string" where
  "str_nat k =
     (if k < 10 then [digit k]
      else if k < 100 then [digit (k div 10), digit k]
      else [digit (k div 100), digit (k div 10), digit k])"

text \<open>
  One pass of the inner loop body: the flight for day \<open>d\<close> and one route, when \<open>n\<close>
  flights have been collected so far.
\<close>

definition seed_flight :: "datetime \<Rightarrow> nat \<Rightarrow> string \<times> string \<Rightarrow> nat \<Rightarrow> Flight" where
  "seed_flight base d r n =
     (let dep = base + int d * usec_day + int ((d mod 3) * 3) * usec_hour;
          arr = dep + usec_hour + 10 * 60000000;
          airline = AIRLINES ! ((d + n) mod length AIRLINES)
      in \<lparr>flight_number = airline @ ''-'' @ str_nat (100 + d * 5 + n mod 5),
          Flight.origin = fst r, Flight.destination = snd r,
          departure_time = dep, arrival_time = arr,
          price = of_int (price_base r + int (d * 5)),
          seats_total = 120, seats_available = 120 - int (d * 3)\<rparr>)"

definition seed_flights :: "datetime \<Rightarrow> Flight list" where
  "seed_flights base =
     fold (\<lambda>d flights. fold (\<lambda>r flights. flights @ [seed_flight base d r (length flights)]) routes flights)
       [0 ..< 5] []"

text \<open>\<^verbatim>\<open>insert_many\<close>: the documents are appended in order, each under a new id.\<close>

definition insert_many :: "'a list \<Rightarrow> (oid \<times> 'a) list \<times> oid \<Rightarrow> (oid \<times> 'a) list \<times> oid" where
  "insert_many docs cn =
     (fst cn @ zip [snd cn ..< snd cn + length docs] docs, snd cn + length docs)"

text \<open>
  \<^verbatim>\<open>ensure_seed\<close> on a connected database; \<open>now\<close> is the value of
  \<^verbatim>\<open>datetime.utcnow()\<close>, and \<^verbatim>\<open>replace(hour=6, minute=0, second=0, microsecond=0)\<close>
  is six hours after the start of its day.
\<close>

definition ensure_seed :: "datetime \<Rightarrow> database \<Rightarrow> database" where
  "ensure_seed now db =
     (let db1 = (if length (airport db) = 0
                 then (case insert_many AIRPORTS_SAMPLE (airport db, next_oid db) of
                         (c, n) \<Rightarrow> db\<lparr>airport := c, next_oid := n\<rparr>)
                 else db)
      in if length (flight db1) = 0
         then (let base = now - now mod usec_day + 6 * usec_hour;
                   flights = seed_flights base
               in if flights \<noteq> []
                  then (case insert_many flights (flight db1, next_oid db1) of
                          (c, n) \<Rightarrow> db1\<lparr>flight := c, next_oid := n\<rparr>)
                  else db1)
         else db1)"

definition empty_db :: database where
  "empty_db = \<lparr>airport = [], flight = [], booking = [], next_oid = 0\<rparr>"

section \<open>Searching flights\<close>






section \<open>Examples\<close>

text \<open>
  A library instance for the examples: an ObjectId is written as 24 hexadecimal digits and
  read as the number they denote, \<open>str\<close> writes it back in lower case, and every string
  with an \<open>@\<close> counts as an e-mail address.
\<close>

definition hex_val :: "char \<Rightarrow> nat option" where
  "hex_val c =
     map_of (zip ''0123456789abcdefABCDEF''
       [0, 1, 2, 3, 4, 5, 6, 7, 8, 9, 10, 11, 12, 13, 14, 15, 10, 11, 12, 13, 14, 15]) c"

fun hex_num :: "nat \<Rightarrow> string \<Rightarrow> nat option" where
  "hex_num a [] = Some a"
| "hex_num a (c # cs) = (case hex_val c of None \<Rightarrow> None | Some v \<Rightarrow> hex_num (16 * a + v) cs)"

definition hex_ObjectId :: "string \<Rightarrow> oid option" where
  "hex_ObjectId s = (if length s = 24 then hex_num 0 s else None)"

fun hex_digits :: "nat \<Rightarrow> nat \<Rightarrow> string" where
  "hex_digits 0 n = []"
| "hex_digits (Suc k) n = hex_digits k (n div 16) @ [''0123456789abcdef'' ! (n mod 16)]"

definition hex_str :: "oid \<Rightarrow> string" where
  "hex_str n = hex_digits 24 n"

definition L0 :: lib where
  "L0 = \<lparr>ObjectId = hex_ObjectId, str = hex_str, EmailStr = (\<lambda>s. CHR ''@'' \<in> set s)\<rparr>"

text \<open>A store with one flight, of id 7, with \<open>k\<close> seats left, and requests on that flight.\<close>

definition F0 :: "int \<Rightarrow> Flight" where
  "F0 k = \<lparr>flight_number = ''IR-100'', Flight.origin = ''IKA'', Flight.destination = ''MHD'',
           departure_time = 21600000000, arrival_time = 25800000000, price = 70,
           seats_total = 120, seats_available = k\<rparr>"

definition db0 :: "int \<Rightarrow> database" where
  "db0 k = \<lparr>airport = [], flight = [(7, F0 k)], booking = [], next_oid = 8\<rparr>"

definition pax :: "string \<Rightarrow> PassengerIn" where
  "pax n = \<lparr>PassengerIn.first_name = n, PassengerIn.last_name = ''Doe'',
            PassengerIn.email = ''p@x.org'', PassengerIn.document_number = None\<rparr>"

definition req0 :: "PassengerIn list \<Rightarrow> BookingRequest" where
  "req0 ps = \<lparr>BookingRequest.flight_id = ''000000000000000000000007'',
              BookingRequest.contact_email = ''c@x.org'', BookingRequest.passengers = ps\<rparr>"

text \<open>
  The fifth seeded flight (the first of the second day) when the clock reads 0, and
  requests on it; its id is 9, since the five airports and four flights come before it.
\<close>

definition F9 :: Flight where
  "F9 = \<lparr>flight_number = ''W5-109'', Flight.origin = ''IKA'', Flight.destination = ''MHD'',
          departure_time = 118800000000, arrival_time = 123000000000, price = 75,
          seats_total = 120, seats_available = 117\<rparr>"


definition req9 :: "PassengerIn list \<Rightarrow> BookingRequest" where
  "req9 ps = \<lparr>BookingRequest.flight_id = ''000000000000000000000009'',
              BookingRequest.contact_email = ''c@x.org'', BookingRequest.passengers = ps\<rparr>"

section \<open>Auxiliary facts\<close>


lemma mk_Passengers_eq:
  "mk_Passengers L ps =
     (if list_all (\<lambda>p. EmailStr L (PassengerIn.email p)) ps then Inr (map as_Passenger ps)
      else Inl ValidationError)"
  by (induction ps) (simp_all add: mk_Passenger_def as_Passenger_def)

lemma list_all_as_Passenger:
  "list_all (\<lambda>p. EmailStr L (Passenger.email p)) (map as_Passenger ps)
     = list_all (\<lambda>p. EmailStr L (PassengerIn.email p)) ps"
  by (induction ps) (simp_all add: as_Passenger_def)

lemma cb_insert_eq:
  "cb_insert L req fl db =
     (if BookingRequest_valid L req \<and> 0 \<le> price fl * of_nat (length (BookingRequest.passengers req))
      then Inr ((map as_Passenger (BookingRequest.passengers req), str L (next_oid db)),
                db\<lparr>booking := booking db @ [(next_oid db, booking_doc req fl)],
                   next_oid := Suc (next_oid db)\<rparr>)
      else Inl ValidationError)"
  by (simp add: cb_insert_def mk_Passengers_eq mk_Booking_def list_all_as_Passenger
      BookingRequest_valid_def create_document_booking_def booking_doc_def)

lemma cb_read_Inr:
  "cb_read L req db = Inr (fid, fl) \<longleftrightarrow>
     ObjectId L (BookingRequest.flight_id req) = Some fid \<and> find_one fid (flight db) = Some fl
     \<and> int (length (BookingRequest.passengers req)) \<le> seats_available fl"
  by (auto simp: cb_read_def split: option.splits)

lemma create_booking_steps:
  "run L [0, 0, 0] ([Start req], db) = ([Done (fst (create_booking L req db))], snd (create_booking L req db))"
  by (simp add: create_booking_def split: sum.splits prod.splits)

lemma create_booking_Inl:
  "fst (create_booking L req db) = Inl e \<Longrightarrow> snd (create_booking L req db) = db"
  by (auto simp: create_booking_def split: sum.splits prod.splits)

lemma create_booking_Inr:
  "create_booking L req db = (Inr resp, db') \<longleftrightarrow>
     (\<exists>fid fl. cb_read L req db = Inr (fid, fl) \<and> BookingRequest_valid L req
        \<and> 0 \<le> price fl * of_nat (length (BookingRequest.passengers req))
        \<and> resp = \<lparr>booking_id = str L (next_oid db), BookingResponse.status = ''confirmed''\<rparr>
        \<and> db' = db\<lparr>booking := booking db @ [(next_oid db, booking_doc req fl)],
                    next_oid := Suc (next_oid db),
                    flight := update_one_inc fid (- int (length (BookingRequest.passengers req))) (flight db)\<rparr>)"
  by (auto simp: create_booking_def cb_insert_eq cb_decrement_def split: sum.splits prod.splits)


lemma find_one_update_one_inc:
  "find_one j (update_one_inc i d c) =
     (if j = i then map_option (\<lambda>f. f\<lparr>seats_available := seats_available f + d\<rparr>) (find_one j c)
      else find_one j c)"
  by (induction c) (auto simp: find_one_def)


lemma booked_append:
  "booked L fid (db\<lparr>booking := booking db @ [(k, b)], next_oid := n\<rparr>) =
     booked L fid db + (if refers L fid b then int (length (Booking.passengers b)) else 0)"
  by (simp add: booked_def)

lemma booked_flight_update: "booked L fid (db\<lparr>flight := c\<rparr>) = booked L fid db"
  by (simp add: booked_def)

lemma pending_update:
  "i < length pcs \<Longrightarrow> pending fid (pcs[i := p]) = pending fid pcs - owed fid (pcs ! i) + owed fid p"
proof (induction pcs arbitrary: i)
  case Nil
  then show ?case by simp
next
  case (Cons a pcs)
  then show ?case by (cases i) (simp_all add: pending_def)
qed

lemma step_pc_ok: "pc_ok L p \<Longrightarrow> pc_ok L (fst (step L p db))"
  by (cases p) (auto simp: cb_read_Inr cb_insert_eq cb_decrement_def split: sum.splits prod.splits)

lemma step_account:
  assumes "pc_ok L p" and "step L p db = (p', db')"
  shows "map_option (\<lambda>f. seats_available f + booked L fid db' - owed fid p') (find_one fid (flight db'))
       = map_option (\<lambda>f. seats_available f + booked L fid db - owed fid p) (find_one fid (flight db))"
proof (cases p)
  case (Start req)
  then show ?thesis using assms by (auto split: sum.splits)
next
  case (Checked req i fl)
  then show ?thesis using assms
    by (auto simp: cb_insert_eq booked_append refers_def booking_doc_def split: if_splits)
next
  case (Written i ps bid)
  then show ?thesis using assms
    by (cases "find_one fid (flight db)")
       (auto simp: cb_decrement_def booked_flight_update find_one_update_one_inc)
next
  case (Done r)
  then show ?thesis using assms by auto
qed

lemma step_static:
  assumes "step L p db = (p', db')"
  shows "map_option (\<lambda>f. f\<lparr>seats_available := 0\<rparr>) (find_one fid (flight db'))
       = map_option (\<lambda>f. f\<lparr>seats_available := 0\<rparr>) (find_one fid (flight db))"
  using assms
  by (cases p; cases "find_one fid (flight db)")
     (auto simp: cb_insert_eq cb_decrement_def find_one_update_one_inc split: sum.splits if_splits)



lemma run_account:
  assumes "list_all (pc_ok L) pcs" and "run L sched (pcs, db) = (pcs', db')"
  shows "account L fid (pcs', db') = account L fid (pcs, db)"
  using assms
proof (induction sched arbitrary: pcs db)
  case Nil
  then show ?case by simp
next
  case (Cons i sched)
  show ?case
  proof (cases "i < length pcs")
    case False
    with Cons show ?thesis by simp
  next
    case True
    obtain p d where st: "step L (pcs ! i) db = (p, d)" by (cases "step L (pcs ! i) db")
    from Cons.prems(1) True have ok: "pc_ok L (pcs ! i)" by (simp add: list_all_length)
    from step_pc_ok [OF ok, of db] st have "pc_ok L p" by simp
    with Cons.prems(1) have oks: "list_all (pc_ok L) (pcs[i := p])"
      by (auto simp: list_all_iff dest: subsetD [OF set_update_subset_insert])
    from Cons.prems(2) True st have "run L sched (pcs[i := p], d) = (pcs', db')" by simp
    from Cons.IH [OF oks this]
    have "account L fid (pcs', db') = account L fid (pcs[i := p], d)" .
    also have "\<dots> = account L fid (pcs, db)"
      using step_account [OF ok st, of fid] True
      by (cases "find_one fid (flight d)"; cases "find_one fid (flight db)")
         (simp_all add: account_def pending_update)
    finally show ?thesis .
  qed
qed

lemma run_static:
  assumes "run L sched (pcs, db) = (pcs', db')"
  shows "map_option (\<lambda>f. f\<lparr>seats_available := 0\<rparr>) (find_one fid (flight db'))
       = map_option (\<lambda>f. f\<lparr>seats_available := 0\<rparr>) (find_one fid (flight db))"
  using assms
proof (induction sched arbitrary: pcs db)
  case Nil
  then show ?case by simp
next
  case (Cons i sched)
  show ?case
  proof (cases "i < length pcs")
    case False
    with Cons show ?thesis by simp
  next
    case True
    obtain p d where st: "step L (pcs ! i) db = (p, d)" by (cases "step L (pcs ! i) db")
    from Cons.prems True st have "run L sched (pcs[i := p], d) = (pcs', db')" by simp
    from Cons.IH [OF this] step_static [OF st, of fid] show ?thesis by simp
  qed
qed

lemma map_fst_update_one_inc: "map fst (update_one_inc i d c) = map fst c"
  by (induction c) auto

lemma step_ids:
  assumes "step L p db = (p', db')"
  shows "map fst (flight db') = map fst (flight db)"
  using assms
  by (cases p) (auto simp: cb_insert_eq cb_decrement_def map_fst_update_one_inc split: sum.splits if_splits)

lemma run_ids:
  assumes "run L sched (pcs, db) = (pcs', db')"
  shows "map fst (flight db') = map fst (flight db)"
  using assms
proof (induction sched arbitrary: pcs db)
  case Nil
  then show ?case by simp
next
  case (Cons i sched)
  show ?case
  proof (cases "i < length pcs")
    case False
    with Cons show ?thesis by simp
  next
    case True
    obtain p d where st: "step L (pcs ! i) db = (p, d)" by (cases "step L (pcs ! i) db")
    from Cons.prems True st have "run L sched (pcs[i := p], d) = (pcs', db')" by simp
    from Cons.IH [OF this] step_ids [OF st] show ?thesis by simp
  qed
qed


lemma upt_0_5: "[0 ..< 5] = [0, 1, 2, 3, 4 :: nat]"
  by (simp add: upt_conv_Cons)

lemma seed_flights_seats:
  "map (\<lambda>f. (seats_total f, seats_available f)) (seed_flights base) =
     [(120, 120), (120, 120), (120, 120), (120, 120),
      (120, 117), (120, 117), (120, 117), (120, 117),
      (120, 114), (120, 114), (120, 114), (120, 114),
      (120, 111), (120, 111), (120, 111), (120, 111),
      (120, 108), (120, 108), (120, 108), (120, 108)]"
  by (simp add: seed_flights_def routes_def upt_0_5 seed_flight_def Let_def)

lemma length_seed_flights: "length (seed_flights base) = 20"
  using arg_cong [OF seed_flights_seats [of base], of length] by simp

lemma upt_5_25:
  "[5 ..< 25] = [5, 6, 7, 8, 9, 10, 11, 12, 13, 14, 15, 16, 17, 18, 19, 20, 21, 22, 23, 24 :: nat]"
  by (simp add: upt_rec_numeral)

lemma Suc5: "Suc (Suc (Suc (Suc (Suc 0)))) = 5"
  by simp

lemma ensure_seed_empty:
  "ensure_seed now empty_db =
     \<lparr>airport = zip [0, 1, 2, 3, 4] AIRPORTS_SAMPLE,
      flight = zip [5, 6, 7, 8, 9, 10, 11, 12, 13, 14, 15, 16, 17, 18, 19, 20, 21, 22, 23, 24]
                 (seed_flights (now - now mod usec_day + 6 * usec_hour)),
      booking = [], next_oid = 25\<rparr>"
proof -
  have "seed_flights (now - now mod usec_day + 6 * usec_hour) \<noteq> []"
    using length_seed_flights [of "now - now mod usec_day + 6 * usec_hour"] by auto
  then show ?thesis
    by (simp add: ensure_seed_def empty_db_def insert_many_def length_seed_flights
        AIRPORTS_SAMPLE_def upt_0_5 upt_5_25 Suc5 Let_def)
qed

lemma seeded_flights:
  "map (\<lambda>d. (fst d, seats_total (snd d), seats_available (snd d))) (flight (ensure_seed now empty_db)) =
     [(5, 120, 120), (6, 120, 120), (7, 120, 120), (8, 120, 120),
      (9, 120, 117), (10, 120, 117), (11, 120, 117), (12, 120, 117),
      (13, 120, 114), (14, 120, 114), (15, 120, 114), (16, 120, 114),
      (17, 120, 111), (18, 120, 111), (19, 120, 111), (20, 120, 111),
      (21, 120, 108), (22, 120, 108), (23, 120, 108), (24, 120, 108)]"
  using seed_flights_seats [of "now - now mod usec_day + 6 * usec_hour"]
    length_seed_flights [of "now - now mod usec_day + 6 * usec_hour"]
  by (simp add: ensure_seed_empty zip_map_fst_snd list_eq_iff_nth_eq nth_Cons' split: if_splits)


subsection \<open>Evaluation of the examples\<close>


lemma hex_digits_numeral:
  "hex_digits (numeral k) n = hex_digits (pred_numeral k) (n div 16) @ [''0123456789abcdef'' ! (n mod 16)]"
proof -
  have "hex_digits (Suc (pred_numeral k)) n = hex_digits (pred_numeral k) (n div 16) @ [''0123456789abcdef'' ! (n mod 16)]"
    by (rule hex_digits.simps(2))
  then show ?thesis by (simp only: numeral_eq_Suc [symmetric, of k])
qed

lemma L0_ObjectId_7: "ObjectId L0 ''000000000000000000000007'' = Some 7"
  by (simp add: L0_def hex_ObjectId_def hex_val_def)

lemma L0_str_8: "str L0 8 = ''000000000000000000000008''"
  by (simp add: L0_def hex_str_def hex_digits_numeral)

lemma L0_str_9: "str L0 9 = ''000000000000000000000009''"
  by (simp add: L0_def hex_str_def hex_digits_numeral)

lemma pax_email: "PassengerIn.email (pax n) = ''p@x.org''"
  by (simp add: pax_def)


lemma price_F0: "price (F0 k) = 70"
  by (simp add: F0_def)

lemma step_Start_ex:
  "step L0 (Start (req0 ps)) \<lparr>airport = A, flight = [(7, F0 k)], booking = B, next_oid = n\<rparr> =
     (if k < int (length ps) then Done (Inl (HTTPException 400 ''Not enough seats available''))
      else Checked (req0 ps) 7 (F0 k),
      \<lparr>airport = A, flight = [(7, F0 k)], booking = B, next_oid = n\<rparr>)"
  by (simp add: cb_read_def req0_def L0_ObjectId_7 find_one_def F0_def)

lemma step_Checked_ex:
  "list_all (\<lambda>p. CHR ''@'' \<in> set (PassengerIn.email p)) ps \<Longrightarrow>
   step L0 (Checked (req0 ps) i (F0 k)) \<lparr>airport = A, flight = C, booking = B, next_oid = n\<rparr> =
     (Written i (map as_Passenger ps) (str L0 n),
      \<lparr>airport = A, flight = C, booking = B @ [(n, booking_doc (req0 ps) (F0 k))], next_oid = Suc n\<rparr>)"
  by (simp add: cb_insert_eq BookingRequest_valid_def req0_def price_F0 L0_def)

lemma step_Written_ex:
  "step L0 (Written 7 ps bid) \<lparr>airport = A, flight = [(7, F0 k)], booking = B, next_oid = n\<rparr> =
     (Done (Inr \<lparr>booking_id = bid, BookingResponse.status = ''confirmed''\<rparr>),
      \<lparr>airport = A, flight = [(7, F0 (k - int (length ps)))], booking = B, next_oid = n\<rparr>)"
  by (simp add: cb_decrement_def F0_def)

lemmas ex_simps = db0_def step_Start_ex step_Checked_ex step_Written_ex pax_email L0_str_8 L0_str_9

lemma seeded_ids:
  "map fst (flight (ensure_seed now empty_db)) =
     [5, 6, 7, 8, 9, 10, 11, 12, 13, 14, 15, 16, 17, 18, 19, 20, 21, 22, 23, 24]"
proof -
  have "map fst (flight (ensure_seed now empty_db)) =
      map fst (map (\<lambda>d. (fst d, seats_total (snd d), seats_available (snd d))) (flight (ensure_seed now empty_db)))"
    by (simp add: comp_def)
  then show ?thesis by (simp only: seeded_flights) simp
qed

lemma pending_Start: "pending fid (map Start reqs) = 0"
  by (induction reqs) (simp_all add: pending_def)

lemma pc_ok_Start: "list_all (pc_ok L) (map Start reqs)"
  by (induction reqs) simp_all

lemma seed_flights_eval:
  "seed_flights base =
     [seed_flight base 0 (''IKA'', ''MHD'') 0, seed_flight base 0 (''IKA'', ''SYZ'') 1,
      seed_flight base 0 (''THR'', ''MHD'') 2, seed_flight base 0 (''IFN'', ''IKA'') 3,
      seed_flight base 1 (''IKA'', ''MHD'') 4, seed_flight base 1 (''IKA'', ''SYZ'') 5,
      seed_flight base 1 (''THR'', ''MHD'') 6, seed_flight base 1 (''IFN'', ''IKA'') 7,
      seed_flight base 2 (''IKA'', ''MHD'') 8, seed_flight base 2 (''IKA'', ''SYZ'') 9,
      seed_flight base 2 (''THR'', ''MHD'') 10, seed_flight base 2 (''IFN'', ''IKA'') 11,
      seed_flight base 3 (''IKA'', ''MHD'') 12, seed_flight base 3 (''IKA'', ''SYZ'') 13,
      seed_flight base 3 (''THR'', ''MHD'') 14, seed_flight base 3 (''IFN'', ''IKA'') 15,
      seed_flight base 4 (''IKA'', ''MHD'') 16, seed_flight base 4 (''IKA'', ''SYZ'') 17,
      seed_flight base 4 (''THR'', ''MHD'') 18, seed_flight base 4 (''IFN'', ''IKA'') 19]"
  apply (simp add: seed_flights_def routes_def upt_0_5)
  apply (simp add: eval_nat_numeral)
  done

lemma seed_flight_9: "seed_flight (6 * usec_hour) (Suc 0) (''IKA'', ''MHD'') 4 = F9"
  apply (simp add: seed_flight_def)
  apply (simp add: F9_def usec_day_def usec_hour_def AIRLINES_def Let_def str_nat_def digit_def)
  done


lemma find_one_9: "find_one 9 (flight (ensure_seed 0 empty_db)) = Some F9"
  apply (simp add: ensure_seed_empty)
  apply (simp add: seed_flights_eval find_one_def seed_flight_9)
  done

lemma L0_ObjectId_9: "ObjectId L0 ''000000000000000000000009'' = Some 9"
  by (simp add: L0_def hex_ObjectId_def hex_val_def)

lemma L0_str_25: "str L0 25 = ''000000000000000000000019''"
  by (simp add: L0_def hex_str_def hex_digits_numeral)

lemma update_one_inc_seeded:
  "update_one_inc 9 (- 2) (flight (ensure_seed 0 empty_db)) =
     (take 4 (flight (ensure_seed 0 empty_db)) @ [(9, F9\<lparr>seats_available := 115\<rparr>)]
        @ drop 5 (flight (ensure_seed 0 empty_db)))"
  apply (simp add: ensure_seed_empty)
  apply (simp add: seed_flights_eval seed_flight_9 F9_def)
  done

lemma create_booking_9:
  "create_booking L0 (req9 [pax ''A'', pax ''B'']) (ensure_seed 0 empty_db) =
     (Inr \<lparr>booking_id = ''000000000000000000000019'', BookingResponse.status = ''confirmed''\<rparr>,
      (ensure_seed 0 empty_db)
        \<lparr>booking := [(25, booking_doc (req9 [pax ''A'', pax ''B'']) F9)], next_oid := 26,
         flight := update_one_inc 9 (- 2) (flight (ensure_seed 0 empty_db))\<rparr>)"
proof -
  have rd: "cb_read L0 (req9 [pax ''A'', pax ''B'']) (ensure_seed 0 empty_db) = Inr (9, F9)"
    by (simp add: cb_read_Inr find_one_9) (simp add: req9_def L0_ObjectId_9 F9_def)
  have v: "BookingRequest_valid L0 (req9 [pax ''A'', pax ''B''])"
    by (simp add: BookingRequest_valid_def req9_def pax_email L0_def)
  have n: "next_oid (ensure_seed 0 empty_db) = 25" "booking (ensure_seed 0 empty_db) = []"
    by (simp_all add: ensure_seed_empty)
  have l: "BookingRequest.passengers (req9 [pax ''A'', pax ''B'']) = [pax ''A'', pax ''B'']"
    by (simp add: req9_def)
  show ?thesis
    by (simp add: create_booking_Inr rd v n l L0_str_25) (simp add: F9_def)
qed





section \<open>Properties\<close>

text \<open>
  C6. A call whose flight exists but whose passenger count exceeds the flight's
  \<open>seats_available\<close> fails with HTTP 400 "Not enough seats available" and returns the
  database as it was: the counter is unchanged and no booking is written.
\<close>

theorem C6_insufficient_capacity:
  assumes "ObjectId L (BookingRequest.flight_id req) = Some fid"
    and "find_one fid (flight db) = Some fl"
    and "seats_available fl < int (length (BookingRequest.passengers req))"
  shows "create_booking L req db = (Inl (HTTPException 400 ''Not enough seats available''), db)"
  using assms by (simp add: create_booking_def cb_read_def)

theorem C6_insufficient_capacity_witness:
  "ObjectId L0 (BookingRequest.flight_id (req0 [pax ''A'', pax ''B''])) = Some 7
   \<and> find_one 7 (flight (db0 1)) = Some (F0 1)
   \<and> seats_available (F0 1) < int (length (BookingRequest.passengers (req0 [pax ''A'', pax ''B''])))
   \<and> create_booking L0 (req0 [pax ''A'', pax ''B'']) (db0 1)
       = (Inl (HTTPException 400 ''Not enough seats available''), db0 1)"
proof -
  have a: "ObjectId L0 (BookingRequest.flight_id (req0 [pax ''A'', pax ''B''])) = Some 7"
    by (simp add: L0_def req0_def hex_ObjectId_def hex_val_def)
  have b: "find_one 7 (flight (db0 1)) = Some (F0 1)"
    by (simp add: find_one_def db0_def)
  have c: "seats_available (F0 1) < int (length (BookingRequest.passengers (req0 [pax ''A'', pax ''B''])))"
    by (simp add: F0_def req0_def)
  show ?thesis using a b c C6_insufficient_capacity [OF a b c] by simp
qed

text \<open>
  C4, as the claim states it, fails in the seeded state itself: the flight of id 9 is seeded
  with 117 of its 120 seats available and no booking refers to it.
\<close>

theorem C4_counterexample:
  "find_one 9 (flight (ensure_seed 0 empty_db)) = Some F9
   \<and> seats_available F9 + booked L0 9 (ensure_seed 0 empty_db) = 117
   \<and> seats_total F9 = 120"
proof -
  have "booked L0 9 (ensure_seed 0 empty_db) = 0"
    by (simp add: booked_def ensure_seed_empty)
  then show ?thesis by (simp add: find_one_9 F9_def)
qed

text \<open>
  C4, amended. After seeding, in every state reached by any interleaving of
  \<^verbatim>\<open>create_booking\<close> calls, every flight in the store is a seeded flight with its
  \<open>seats_total\<close> of 120 unchanged, and its \<open>seats_available\<close> plus the passengers of the
  bookings that refer to it and are not cancelled equals the \<open>seats_available\<close> it was
  seeded with (one of 120, 117, 114, 111, 108) plus the passengers of the calls that have
  written their booking and not yet decreased the counter.
\<close>

theorem C4_seat_accounting:
  assumes r: "run L sched (map Start reqs, ensure_seed now empty_db) = (pcs, db)"
    and m: "(fid, f) \<in> set (flight db)"
  shows "\<exists>f0. (fid, f0) \<in> set (flight (ensure_seed now empty_db))
           \<and> seats_total f = seats_total f0 \<and> seats_total f0 = 120
           \<and> seats_available f0 \<in> {120, 117, 114, 111, 108}
           \<and> seats_available f + booked L fid db = seats_available f0 + pending fid pcs"
proof -
  let ?S = "ensure_seed now empty_db"
  have d0: "distinct (map fst (flight ?S))" by (simp add: seeded_ids)
  with run_ids [OF r] have d: "distinct (map fst (flight db))" by simp
  with m have fo: "find_one fid (flight db) = Some f" by (simp add: find_one_def)
  from run_static [OF r, of fid] fo obtain f0
    where f0: "find_one fid (flight ?S) = Some f0"
      and eq: "f\<lparr>seats_available := 0\<rparr> = f0\<lparr>seats_available := 0\<rparr>"
    by (cases "find_one fid (flight ?S)") auto
  from f0 have m0: "(fid, f0) \<in> set (flight ?S)"
    by (auto simp: find_one_def dest: map_of_SomeD)
  from arg_cong [OF eq, of seats_total] have tot: "seats_total f = seats_total f0" by simp
  have b0: "booked L fid ?S = 0" by (simp add: booked_def ensure_seed_empty)
  from run_account [OF pc_ok_Start r, of fid] fo f0
  have acc: "seats_available f + booked L fid db = seats_available f0 + pending fid pcs"
    by (simp add: account_def pending_Start b0)
  from m0 have "(fid, seats_total f0, seats_available f0)
      \<in> set (map (\<lambda>d. (fst d, seats_total (snd d), seats_available (snd d))) (flight ?S))"
    by force
  then have "seats_total f0 = 120 \<and> seats_available f0 \<in> {120, 117, 114, 111, 108}"
    unfolding seeded_flights by auto
  with m0 tot acc show ?thesis by blast
qed

theorem C4_seat_accounting_witness:
  "run L0 [0, 0, 0] (map Start [req9 [pax ''A'', pax ''B'']], ensure_seed 0 empty_db) =
     ([Done (Inr \<lparr>booking_id = ''000000000000000000000019'', BookingResponse.status = ''confirmed''\<rparr>)],
      (ensure_seed 0 empty_db)
        \<lparr>booking := [(25, booking_doc (req9 [pax ''A'', pax ''B'']) F9)], next_oid := 26,
         flight := update_one_inc 9 (- 2) (flight (ensure_seed 0 empty_db))\<rparr>)
   \<and> (9, F9\<lparr>seats_available := 115\<rparr>) \<in> set (flight ((ensure_seed 0 empty_db)
        \<lparr>booking := [(25, booking_doc (req9 [pax ''A'', pax ''B'']) F9)], next_oid := 26,
         flight := update_one_inc 9 (- 2) (flight (ensure_seed 0 empty_db))\<rparr>))
   \<and> (\<exists>f0. (9, f0) \<in> set (flight (ensure_seed 0 empty_db))
           \<and> seats_total (F9\<lparr>seats_available := 115\<rparr>) = seats_total f0 \<and> seats_total f0 = 120
           \<and> seats_available f0 \<in> {120, 117, 114, 111, 108}
           \<and> seats_available (F9\<lparr>seats_available := 115\<rparr>)
               + booked L0 9 ((ensure_seed 0 empty_db)
                   \<lparr>booking := [(25, booking_doc (req9 [pax ''A'', pax ''B'']) F9)], next_oid := 26,
                    flight := update_one_inc 9 (- 2) (flight (ensure_seed 0 empty_db))\<rparr>)
             = seats_available f0
               + pending 9 [Done (Inr \<lparr>booking_id = ''000000000000000000000019'', BookingResponse.status = ''confirmed''\<rparr>)])"
proof -
  let ?db = "(ensure_seed 0 empty_db)
        \<lparr>booking := [(25, booking_doc (req9 [pax ''A'', pax ''B'']) F9)], next_oid := 26,
         flight := update_one_inc 9 (- 2) (flight (ensure_seed 0 empty_db))\<rparr>"
  have a: "run L0 [0, 0, 0] (map Start [req9 [pax ''A'', pax ''B'']], ensure_seed 0 empty_db) =
     ([Done (Inr \<lparr>booking_id = ''000000000000000000000019'', BookingResponse.status = ''confirmed''\<rparr>)], ?db)"
    using create_booking_steps [of L0 "req9 [pax ''A'', pax ''B'']" "ensure_seed 0 empty_db"]
    by (simp only: create_booking_9 list.map fst_conv snd_conv)
  have b: "(9, F9\<lparr>seats_available := 115\<rparr>) \<in> set (flight ?db)"
    by (simp add: update_one_inc_seeded)
  from C4_seat_accounting [OF a b] a b show ?thesis by simp
qed

text \<open>
  C1, at the claim's own scenario. The flight of id 7 has two seats left and two requests of
  two passengers each run concurrently: both read the flight before either writes. Both
  calls answer "confirmed", two bookings of two passengers are written and the counter
  ends at -2: four seats are consumed where two were available.
\<close>

theorem C1_concurrent_overbooking:
  "run L0 [0, 1, 0, 1, 0, 1]
       ([Start (req0 [pax ''A'', pax ''B'']), Start (req0 [pax ''C'', pax ''D''])], db0 2)
   = ([Done (Inr \<lparr>booking_id = ''000000000000000000000008'', BookingResponse.status = ''confirmed''\<rparr>),
       Done (Inr \<lparr>booking_id = ''000000000000000000000009'', BookingResponse.status = ''confirmed''\<rparr>)],
      \<lparr>airport = [], flight = [(7, F0 (- 2))],
       booking = [(8, booking_doc (req0 [pax ''A'', pax ''B'']) (F0 2)),
                  (9, booking_doc (req0 [pax ''C'', pax ''D'']) (F0 2))],
       next_oid = 10\<rparr>)"
  by (simp add: ex_simps del: step.simps)

text \<open>
  C2, at the same scenario, one step earlier. The second call read two available seats; by
  the time it has written its booking the first call has taken both and the counter is 0.
  Its last step still subtracts 2: the update is a separate call after the read, and it
  carries no condition on \<open>seats_available\<close>.
\<close>

theorem C2_read_then_unconditional_write:
  "run L0 [0, 1, 0, 0, 1]
       ([Start (req0 [pax ''A'', pax ''B'']), Start (req0 [pax ''C'', pax ''D''])], db0 2)
   = ([Done (Inr \<lparr>booking_id = ''000000000000000000000008'', BookingResponse.status = ''confirmed''\<rparr>),
       Written 7 (map as_Passenger [pax ''C'', pax ''D'']) ''000000000000000000000009''],
      \<lparr>airport = [], flight = [(7, F0 0)],
       booking = [(8, booking_doc (req0 [pax ''A'', pax ''B'']) (F0 2)),
                  (9, booking_doc (req0 [pax ''C'', pax ''D'']) (F0 2))],
       next_oid = 10\<rparr>)
   \<and> step L0 (Written 7 (map as_Passenger [pax ''C'', pax ''D'']) ''000000000000000000000009'')
       \<lparr>airport = [], flight = [(7, F0 0)],
        booking = [(8, booking_doc (req0 [pax ''A'', pax ''B'']) (F0 2)),
                   (9, booking_doc (req0 [pax ''C'', pax ''D'']) (F0 2))],
        next_oid = 10\<rparr>
     = (Done (Inr \<lparr>booking_id = ''000000000000000000000009'', BookingResponse.status = ''confirmed''\<rparr>),
        \<lparr>airport = [], flight = [(7, F0 (- 2))],
         booking = [(8, booking_doc (req0 [pax ''A'', pax ''B'']) (F0 2)),
                    (9, booking_doc (req0 [pax ''C'', pax ''D'']) (F0 2))],
         next_oid = 10\<rparr>)"
  by (simp add: ex_simps del: step.simps)

text \<open>
  C5, at a flight with one seat left and two concurrent requests of one passenger each: the
  counter ends at -1, below 0.
\<close>

theorem C5_seats_available_negative:
  "map (\<lambda>d. (seats_available (snd d), seats_total (snd d)))
     (flight (snd (run L0 [1, 0, 1, 1, 0, 0] ([Start (req0 [pax ''A'']), Start (req0 [pax ''B''])], db0 1))))
   = [(- 1, 120)]"
  by (simp add: ex_simps del: step.simps) (simp add: F0_def)











end
